theory Spec2Isabelle
  imports Main "HOL-Library.Word"
begin

section \<open>Data model of the motor controller (MSPI.c, SPI.c, PWM.c, uCOSKey.h)\<close>

type_synonym INT8U = "8 word"
type_synonym INT16U = "16 word"
type_synonym OS_MSG_SIZE = nat

text \<open>MSPI.c, lines 113-114: the two enumerations of the user interface.\<close>

datatype SYS_STATE = RUNNING | ADJUST | FAULT
datatype SETTING_STATE = OUT | TENS | ONES

text \<open>
  A pointer argument of \<open>setSpiData\<close> and \<open>setPwmRate\<close> is either the address of an object
  of the caller (\<open>&nextSpiMsg\<close>; reading through it yields the value the object holds at the
  call) or an integer constant converted to the pointer type (\<open>EMERGENCY_STOP\<close> is
  \<open>0x0000U\<close>, so the pointer made from it is the null pointer). No object of the program
  lives behind a pointer made from an integer: reading through it is undefined in C, and
  the model returns it as an error value.
\<close>

datatype 'a ptr = AddressOf 'a | FromInteger nat

datatype error =
    InvalidPointerRead nat  \<comment> \<open>a read through a pointer made from this integer\<close>
  | ErrorTrap               \<comment> \<open>stuck in \<open>while(os_err != OS_ERR_NONE){}\<close>\<close>
  | Blocked                 \<comment> \<open>pending on a semaphore nobody has posted\<close>

definition deref :: "'a ptr \<Rightarrow> error + 'a" where
  "deref p = (case p of AddressOf v \<Rightarrow> Inr v | FromInteger n \<Rightarrow> Inl (InvalidPointerRead n))"

datatype OS_ERR = OS_ERR_NONE | OS_ERR_OTHER

subsection \<open>Constants\<close>

text \<open>uCOSKey.h, lines 14-30. The keys are compared with the 16-bit \<open>copiedmsg\<close>.\<close>

definition ONE_KEY :: INT16U where "ONE_KEY = 0x31"
definition TWO_KEY :: INT16U where "TWO_KEY = 0x32"
definition THR_KEY :: INT16U where "THR_KEY = 0x33"
definition FOUR_KEY :: INT16U where "FOUR_KEY = 0x34"
definition FIV_KEY :: INT16U where "FIV_KEY = 0x35"
definition SIX_KEY :: INT16U where "SIX_KEY = 0x36"
definition SEV_KEY :: INT16U where "SEV_KEY = 0x37"
definition EGT_KEY :: INT16U where "EGT_KEY = 0x38"
definition NIN_KEY :: INT16U where "NIN_KEY = 0x39"
definition ZERO_KEY :: INT16U where "ZERO_KEY = 0x30"
definition STAR_KEY :: INT16U where "STAR_KEY = 0x2A"
definition NUM_KEY :: INT16U where "NUM_KEY = 0x23"
definition A_KEY :: INT16U where "A_KEY = 0x11"
definition B_KEY :: INT16U where "B_KEY = 0x12"
definition C_KEY :: INT16U where "C_KEY = 0x13"
definition D_KEY :: INT16U where "D_KEY = 0x14"
definition NUMBER_KEY_TO_DEC_FACTOR :: int where "NUMBER_KEY_TO_DEC_FACTOR = 48"

lemmas key_defs = ONE_KEY_def TWO_KEY_def THR_KEY_def FOUR_KEY_def FIV_KEY_def SIX_KEY_def
  SEV_KEY_def EGT_KEY_def NIN_KEY_def ZERO_KEY_def STAR_KEY_def NUM_KEY_def
  A_KEY_def B_KEY_def C_KEY_def D_KEY_def

text \<open>MSPI.c, lines 24-67.\<close>

definition NO_FAULT :: INT16U where "NO_FAULT = 0x00"
definition EMERGENCY_STOP :: INT16U where "EMERGENCY_STOP = 0x0000"

definition STATUS_ROW :: nat where "STATUS_ROW = 1"
definition FIRST_COL :: nat where "FIRST_COL = 1"
definition UI_ROW :: nat where "UI_ROW = 2"
definition FAULT_MSG_OUT_COLLEM :: nat where "FAULT_MSG_OUT_COLLEM = 8"
definition UI_PWM_MSG_COL :: nat where "UI_PWM_MSG_COL = 10"
definition UI_OUT_COL :: nat where "UI_OUT_COL = 5"
definition UI_PWM_WRITE :: nat where "UI_PWM_WRITE = 14"
definition UI_PWM_TENS :: nat where "UI_PWM_TENS = 15"
definition UI_PWM_ONES :: nat where "UI_PWM_ONES = 16"

definition CURSOR_ON :: nat where "CURSOR_ON = 1"
definition CURSOR_OFF :: nat where "CURSOR_OFF = 0"
definition CURSOR_BLINK :: nat where "CURSOR_BLINK = 1"

lemmas ui_pos_defs = STATUS_ROW_def FIRST_COL_def UI_ROW_def FAULT_MSG_OUT_COLLEM_def
  UI_PWM_MSG_COL_def UI_OUT_COL_def UI_PWM_WRITE_def UI_PWM_TENS_def UI_PWM_ONES_def
  CURSOR_ON_def CURSOR_OFF_def CURSOR_BLINK_def

definition OUTPUT_ONE_MASK :: INT16U where "OUTPUT_ONE_MASK = 1"
definition OUTPUT_TWO_MASK :: INT16U where "OUTPUT_TWO_MASK = 2"
definition OUTPUT_THR_MASK :: INT16U where "OUTPUT_THR_MASK = 4"
definition OUTPUT_FOU_MASK :: INT16U where "OUTPUT_FOU_MASK = 8"
definition OUTPUT_FIV_MASK :: INT16U where "OUTPUT_FIV_MASK = 16"
definition OUTPUT_SIX_MASK :: INT16U where "OUTPUT_SIX_MASK = 32"
definition OUTPUT_SEV_MASK :: INT16U where "OUTPUT_SEV_MASK = 64"
definition OUTPUT_EGT_MASK :: INT16U where "OUTPUT_EGT_MASK = 128"

lemmas mask_defs = OUTPUT_ONE_MASK_def OUTPUT_TWO_MASK_def OUTPUT_THR_MASK_def
  OUTPUT_FOU_MASK_def OUTPUT_FIV_MASK_def OUTPUT_SIX_MASK_def OUTPUT_SEV_MASK_def
  OUTPUT_EGT_MASK_def

definition OUT_ONE_MSG :: string where "OUT_ONE_MSG = ''OUT1''"
definition OUT_TWO_MSG :: string where "OUT_TWO_MSG = ''OUT2''"
definition OUT_THR_MSG :: string where "OUT_THR_MSG = ''OUT3''"
definition OUT_FOU_MSG :: string where "OUT_FOU_MSG = ''OUT4''"
definition OUT_FIV_MSG :: string where "OUT_FIV_MSG = ''OUT5''"
definition OUT_SIX_MSG :: string where "OUT_SIX_MSG = ''OUT6''"
definition OUT_SEV_MSG :: string where "OUT_SEV_MSG = ''OUT7''"
definition OUT_EGT_MSG :: string where "OUT_EGT_MSG = ''OUT8''"
definition MULIT_FAULT_MSG :: string where "MULIT_FAULT_MSG = ''Many''"
definition FAULT_MSG :: string where "FAULT_MSG = ''Fault: ''"
definition SET_MSG :: string where "SET_MSG = ''SET:''"
definition PWM_MSG :: string where "PWM_MSG = ''PWM%''"
definition NO_OUTPUT_MSG :: string where "NO_OUTPUT_MSG = ''Outputs Off''"

lemmas msg_defs = OUT_ONE_MSG_def OUT_TWO_MSG_def OUT_THR_MSG_def OUT_FOU_MSG_def
  OUT_FIV_MSG_def OUT_SIX_MSG_def OUT_SEV_MSG_def OUT_EGT_MSG_def MULIT_FAULT_MSG_def
  FAULT_MSG_def SET_MSG_def PWM_MSG_def NO_OUTPUT_MSG_def

subsection \<open>The display driver, as the calls made to it\<close>

text \<open>
  The layered LCD driver is not part of the sources. The display is modelled by the
  sequence of driver calls the UI task has issued, oldest first: the display is unchanged
  exactly when no call is added.
\<close>

datatype layer = UI_LAYER | FAULT_LAYER

datatype lcd_call =
    LcdDispString nat nat layer string
  | LcdDispDecByte nat nat layer INT8U nat
  | LcdCursor nat nat layer nat nat
  | LcdDispClrLine nat layer
  | LcdDispClear layer
  | LcdShowLayer layer
  | LcdHideLayer layer

subsection \<open>Program state\<close>

text \<open>
  The locals of \<open>UITask\<close> (MSPI.c, lines 249-256), the file-scope variables of the three
  modules, the counters of the semaphores, and the display calls issued so far.
  A mutex taken and released inside one accessor is back in its initial state when the
  accessor returns; the sequential model leaves it out (the locking discipline has its own
  model below).
\<close>

record sys =
  currentstate :: SYS_STATE
  currentplace :: SETTING_STATE
  whichOutput :: INT8U
  nextPWMRate :: INT8U
  nextSpiMsg :: INT16U
  pwmrate :: INT8U          \<comment> \<open>MSPI.c, line 108\<close>
  NewPwmRate :: nat         \<comment> \<open>MSPI.c, line 89, semaphore\<close>
  spiMsg :: INT16U          \<comment> \<open>SPI.c, line 21\<close>
  NewSpiData :: nat         \<comment> \<open>SPI.c, line 14, semaphore\<close>
  spiFault :: INT8U         \<comment> \<open>SPI.c, line 20\<close>
  spiFaultFlag :: nat       \<comment> \<open>SPI.c, line 19, semaphore\<close>
  pwm_value :: INT16U       \<comment> \<open>PWM.c, line 35\<close>
  PWMChgFlag :: nat         \<comment> \<open>PWM.c, line 34, semaphore\<close>
  lcd :: "lcd_call list"

definition lcd_do :: "lcd_call list \<Rightarrow> sys \<Rightarrow> sys" where
  "lcd_do cs s = s\<lparr>lcd := lcd s @ cs\<rparr>"

text \<open>
  The state when \<open>UITask\<close> reaches its loop: statics are zero, semaphores are created
  with count 0, \<open>currentstate = RUNNING\<close>, \<open>currentplace = OUT\<close>; the three locals
  \<open>whichOutput\<close>, \<open>nextPWMRate\<close>, \<open>nextSpiMsg\<close> have no initialiser and are parameters.
  Lines 260-261 preset the screen.
\<close>

definition sys_init :: "INT8U \<Rightarrow> INT8U \<Rightarrow> INT16U \<Rightarrow> sys" where
  "sys_init w p m =
     \<lparr>currentstate = RUNNING, currentplace = OUT, whichOutput = w, nextPWMRate = p,
      nextSpiMsg = m, pwmrate = 0, NewPwmRate = 0, spiMsg = 0, NewSpiData = 0,
      spiFault = 0, spiFaultFlag = 0, pwm_value = 0, PWMChgFlag = 0,
      lcd = [LcdDispString STATUS_ROW FIRST_COL UI_LAYER NO_OUTPUT_MSG, LcdShowLayer UI_LAYER]\<rparr>"

section \<open>The accessors\<close>

text \<open>SPI.c, lines 91-96.\<close>

definition setSpiData :: "INT16U ptr \<Rightarrow> sys \<Rightarrow> error + sys" where
  "setSpiData passmsg s =
     (case deref passmsg of
        Inl e \<Rightarrow> Inl e
      | Inr v \<Rightarrow> Inr (s\<lparr>spiMsg := v, NewSpiData := NewSpiData s + 1\<rparr>))"

text \<open>MSPI.c, lines 236-241.\<close>

definition setPwmRate :: "INT8U ptr \<Rightarrow> sys \<Rightarrow> error + sys" where
  "setPwmRate passpwm s =
     (case deref passpwm of
        Inl e \<Rightarrow> Inl e
      | Inr v \<Rightarrow> Inr (s\<lparr>pwmrate := v, NewPwmRate := NewPwmRate s + 1\<rparr>))"

text \<open>MSPI.c, lines 223-227: the value copied into \<open>*passpwm\<close>.\<close>

definition getPwmRate :: "sys \<Rightarrow> INT8U" where
  "getPwmRate s = pwmrate s"

text \<open>
  PWM.c, lines 136-144. The reply of \<open>OSSemPost\<close> is a parameter: with any reply other
  than \<open>OS_ERR_NONE\<close> the error trap never exits.
\<close>

definition PWMRate :: "OS_ERR \<Rightarrow> sys \<Rightarrow> error + (INT16U \<times> sys)" where
  "PWMRate os_err s =
     (if os_err \<noteq> OS_ERR_NONE then Inl ErrorTrap
      else Inr (pwm_value s, s\<lparr>PWMChgFlag := PWMChgFlag s + 1\<rparr>))"

text \<open>
  SPI.c, lines 101-105, with \<open>tout = 0\<close> (wait forever): the pend returns once the
  semaphore has been posted; with no post outstanding the caller stays blocked.
\<close>

definition SPIPend :: "sys \<Rightarrow> error + (INT8U \<times> sys)" where
  "SPIPend s =
     (if spiFaultFlag s = 0 then Inl Blocked
      else Inr (spiFault s, s\<lparr>spiFaultFlag := spiFaultFlag s - 1\<rparr>))"

text \<open>
  MSPI.c, lines 478-485, one round of \<open>UISPISrvTask\<close>: the INT8U result of \<open>SPIPend\<close> is
  assigned to the INT16U \<open>spimsg\<close> and posted with \<open>msg_size = sizeof(spimsg)\<close>. The
  result is the message placed in the queue of the UI task.
\<close>

definition UISPISrvTask :: "sys \<Rightarrow> error + ((OS_MSG_SIZE \<times> INT16U) \<times> sys)" where
  "UISPISrvTask s =
     (case SPIPend s of
        Inl e \<Rightarrow> Inl e
      | Inr (r, s') \<Rightarrow> Inr ((2, (ucast r :: INT16U)), s'))"

section \<open>One round of the loop of UITask\<close>

text \<open>MSPI.c, lines 273-281: the emergency stop key.\<close>

definition key_emergency_stop :: "sys \<Rightarrow> error + sys" where
  "key_emergency_stop s =
     (case setSpiData (FromInteger (unat EMERGENCY_STOP)) s of
        Inl e \<Rightarrow> Inl e
      | Inr s1 \<Rightarrow>
          (case setPwmRate (FromInteger (unat (ucast EMERGENCY_STOP :: INT8U))) s1 of
             Inl e \<Rightarrow> Inl e
           | Inr s2 \<Rightarrow>
               Inr ((lcd_do
                  [LcdDispClrLine STATUS_ROW UI_LAYER,
                   LcdDispString STATUS_ROW FIRST_COL UI_LAYER NO_OUTPUT_MSG,
                   LcdHideLayer FAULT_LAYER,
                   LcdShowLayer UI_LAYER] s2)\<lparr>currentstate := RUNNING\<rparr>)))"

text \<open>MSPI.c, lines 283-298: a key while RUNNING.\<close>

definition key_running :: "INT16U \<Rightarrow> sys \<Rightarrow> sys" where
  "key_running copiedmsg s =
     (if copiedmsg = A_KEY then
        (lcd_do
           [LcdDispString UI_ROW FIRST_COL UI_LAYER SET_MSG,
            LcdCursor UI_ROW UI_OUT_COL UI_LAYER CURSOR_ON CURSOR_BLINK]
           (s\<lparr>currentstate := ADJUST\<rparr>))
          \<lparr>currentplace := OUT, whichOutput := 0, nextPWMRate := 0, nextSpiMsg := 0\<rparr>
      else s)"

text \<open>MSPI.c, lines 301-333: \<open>case OUT\<close>.\<close>

definition key_adjust_out :: "INT16U \<Rightarrow> sys \<Rightarrow> sys" where
  "key_adjust_out copiedmsg s =
     (if copiedmsg = FOUR_KEY then
        (lcd_do
           [LcdDispString UI_ROW UI_OUT_COL UI_LAYER OUT_FOU_MSG,
            LcdDispString UI_ROW UI_PWM_MSG_COL UI_LAYER PWM_MSG,
            LcdCursor UI_ROW UI_PWM_TENS UI_LAYER CURSOR_ON CURSOR_BLINK,
            LcdShowLayer UI_LAYER] s)
          \<lparr>whichOutput := 4, nextSpiMsg := OUTPUT_ONE_MASK, currentplace := TENS\<rparr>
      else if copiedmsg = SEV_KEY then
        (lcd_do
           [LcdDispString UI_ROW UI_OUT_COL UI_LAYER OUT_SEV_MSG,
            LcdDispString UI_ROW UI_PWM_MSG_COL UI_LAYER PWM_MSG,
            LcdCursor UI_ROW UI_PWM_TENS UI_LAYER CURSOR_ON CURSOR_BLINK,
            LcdShowLayer UI_LAYER] s)
          \<lparr>whichOutput := 7, nextSpiMsg := OUTPUT_THR_MASK, currentplace := TENS\<rparr>
      else s)"

text \<open>
  MSPI.c, line 337, the right-hand side of the assignment to \<open>nextPWMRate\<close>, and line
  357, the same for the ones place. The operands are promoted to \<open>int\<close>, and the result
  is converted to INT8U by the assignment.
\<close>

definition tens_place :: "INT16U \<Rightarrow> INT8U \<Rightarrow> INT8U" where
  "tens_place copiedmsg rate =
     word_of_int
       (10 * (uint copiedmsg - NUMBER_KEY_TO_DEC_FACTOR)
        + (uint rate - 10 * (uint rate div 10)))"

definition ones_place :: "INT16U \<Rightarrow> INT8U \<Rightarrow> INT8U" where
  "ones_place copiedmsg rate =
     word_of_int ((uint copiedmsg - NUMBER_KEY_TO_DEC_FACTOR) + 10 * (uint rate div 10))"

text \<open>MSPI.c, lines 334-354: \<open>case TENS\<close>.\<close>

definition key_adjust_tens :: "INT16U \<Rightarrow> sys \<Rightarrow> sys" where
  "key_adjust_tens copiedmsg s =
     (if ZERO_KEY \<le> copiedmsg \<and> copiedmsg \<le> NIN_KEY then
        (let r = tens_place copiedmsg (nextPWMRate s)
         in (lcd_do
               [LcdDispDecByte UI_ROW UI_PWM_WRITE UI_LAYER r 0,
                LcdCursor UI_ROW UI_PWM_ONES UI_LAYER CURSOR_ON CURSOR_BLINK,
                LcdShowLayer UI_LAYER]
               (s\<lparr>nextPWMRate := r\<rparr>))
              \<lparr>currentplace := ONES\<rparr>)
      else if copiedmsg = B_KEY then
        lcd_do [LcdCursor UI_ROW UI_OUT_COL UI_LAYER CURSOR_ON CURSOR_BLINK]
          (s\<lparr>currentplace := OUT, nextPWMRate := 0\<rparr>)
      else s)"

text \<open>MSPI.c, lines 365-389: the accept key in \<open>case ONES\<close>.\<close>

definition accept :: "sys \<Rightarrow> error + sys" where
  "accept s =
     (case (if nextPWMRate s = 0 then setSpiData (AddressOf (nextSpiMsg s)) s
            else (case setSpiData (FromInteger (unat EMERGENCY_STOP)) s of
                    Inl e \<Rightarrow> Inl e
                  | Inr s1 \<Rightarrow> setPwmRate (AddressOf (nextPWMRate s1)) s1)) of
        Inl e \<Rightarrow> Inl e
      | Inr s2 \<Rightarrow>
          Inr ((lcd_do
                  ([LcdDispClear UI_LAYER]
                   @ (if whichOutput s2 = 4 then
                        [LcdDispString STATUS_ROW FIRST_COL UI_LAYER OUT_FOU_MSG]
                      else if whichOutput s2 = 7 then
                        [LcdDispString STATUS_ROW FIRST_COL UI_LAYER OUT_SEV_MSG]
                      else [])
                   @ [LcdDispString STATUS_ROW UI_PWM_MSG_COL UI_LAYER PWM_MSG,
                      LcdDispDecByte STATUS_ROW UI_PWM_WRITE UI_LAYER (nextPWMRate s2) 0,
                      LcdCursor UI_ROW FIRST_COL UI_LAYER CURSOR_OFF CURSOR_OFF]) s2)
                \<lparr>currentstate := RUNNING\<rparr>))"

text \<open>MSPI.c, lines 355-393: \<open>case ONES\<close>.\<close>

definition key_adjust_ones :: "INT16U \<Rightarrow> sys \<Rightarrow> error + sys" where
  "key_adjust_ones copiedmsg s =
     (if ZERO_KEY \<le> copiedmsg \<and> copiedmsg \<le> NIN_KEY then
        (let r = ones_place copiedmsg (nextPWMRate s)
         in Inr (lcd_do
               [LcdDispDecByte UI_ROW UI_PWM_WRITE UI_LAYER r 0,
                LcdCursor UI_ROW UI_PWM_ONES UI_LAYER CURSOR_ON CURSOR_BLINK]
               (s\<lparr>nextPWMRate := r\<rparr>)))
      else if copiedmsg = B_KEY then
        Inr (lcd_do [LcdCursor UI_ROW UI_PWM_TENS UI_LAYER CURSOR_ON CURSOR_BLINK]
               (s\<lparr>currentplace := TENS\<rparr>))
      else if copiedmsg = A_KEY then accept s
      else Inr s)"

text \<open>MSPI.c, lines 410-428: which output is written after the fault message.\<close>

definition fault_name :: "INT16U \<Rightarrow> string" where
  "fault_name copiedmsg =
     (if copiedmsg = OUTPUT_ONE_MASK then OUT_ONE_MSG
      else if copiedmsg = OUTPUT_TWO_MASK then OUT_TWO_MSG
      else if copiedmsg = OUTPUT_THR_MASK then OUT_THR_MSG
      else if copiedmsg = OUTPUT_FOU_MASK then OUT_FOU_MSG
      else if copiedmsg = OUTPUT_FIV_MASK then OUT_FIV_MSG
      else if copiedmsg = OUTPUT_SIX_MASK then OUT_SIX_MSG
      else if copiedmsg = OUTPUT_SEV_MASK then OUT_SEV_MSG
      else if copiedmsg = OUTPUT_EGT_MASK then OUT_EGT_MSG
      else MULIT_FAULT_MSG)"

text \<open>MSPI.c, lines 398-432: a two-byte message.\<close>

definition spi_message :: "INT16U \<Rightarrow> sys \<Rightarrow> sys" where
  "spi_message copiedmsg s =
     (if copiedmsg = NO_FAULT \<and> currentstate s = FAULT then
        (lcd_do [LcdHideLayer FAULT_LAYER, LcdShowLayer UI_LAYER] s)\<lparr>currentstate := RUNNING\<rparr>
      else
        (lcd_do
           [LcdHideLayer UI_LAYER,
            LcdDispString STATUS_ROW FIRST_COL FAULT_LAYER FAULT_MSG,
            LcdDispString STATUS_ROW FAULT_MSG_OUT_COLLEM FAULT_LAYER (fault_name copiedmsg),
            LcdShowLayer FAULT_LAYER] s)\<lparr>currentstate := FAULT\<rparr>)"

text \<open>
  MSPI.c, lines 272-435: the body of the loop, for a message of \<open>msg_size\<close> bytes whose
  first sixteen bits are \<open>copiedmsg\<close>.
\<close>

definition UITask_step :: "OS_MSG_SIZE \<Rightarrow> INT16U \<Rightarrow> sys \<Rightarrow> error + sys" where
  "UITask_step msg_size copiedmsg s =
     (if msg_size = 1 then
        (if copiedmsg = D_KEY then key_emergency_stop s
         else if currentstate s = RUNNING \<and> copiedmsg \<noteq> D_KEY then Inr (key_running copiedmsg s)
         else if currentstate s = ADJUST \<and> copiedmsg \<noteq> D_KEY then
           (case currentplace s of
              OUT \<Rightarrow> Inr (key_adjust_out copiedmsg s)
            | TENS \<Rightarrow> Inr (key_adjust_tens copiedmsg s)
            | ONES \<Rightarrow> key_adjust_ones copiedmsg s)
         else Inr s)
      else if msg_size = 2 then Inr (spi_message copiedmsg s)
      else Inr s)"

text \<open>The loop over the messages of the inbox; it ends at the first error.\<close>

fun UITask :: "(OS_MSG_SIZE \<times> INT16U) list \<Rightarrow> sys \<Rightarrow> error + sys" where
  "UITask [] s = Inr s"
| "UITask ((msg_size, copiedmsg) # ms) s =
     (case UITask_step msg_size copiedmsg s of
        Inl e \<Rightarrow> Inl e
      | Inr s' \<Rightarrow> UITask ms s')"

section \<open>Any sequence of operations of the three modules\<close>

datatype operation =
    Op_UITask OS_MSG_SIZE INT16U     \<comment> \<open>one round of the loop of \<open>UITask\<close>\<close>
  | Op_UISPISrvTask                  \<comment> \<open>one round of the loop of \<open>UISPISrvTask\<close>\<close>
  | Op_setSpiData "INT16U ptr"
  | Op_setPwmRate "INT8U ptr"
  | Op_getPwmRate
  | Op_PWMRate OS_ERR

fun perform :: "operation \<Rightarrow> sys \<Rightarrow> error + sys" where
  "perform (Op_UITask msg_size copiedmsg) s = UITask_step msg_size copiedmsg s"
| "perform Op_UISPISrvTask s = map_sum id snd (UISPISrvTask s)"
| "perform (Op_setSpiData p) s = setSpiData p s"
| "perform (Op_setPwmRate p) s = setPwmRate p s"
| "perform Op_getPwmRate s = Inr s"
| "perform (Op_PWMRate os_err) s = map_sum id snd (PWMRate os_err s)"

fun perform_all :: "operation list \<Rightarrow> sys \<Rightarrow> error + sys" where
  "perform_all [] s = Inr s"
| "perform_all (x # xs) s =
     (case perform x s of
        Inl e \<Rightarrow> Inl e
      | Inr s' \<Rightarrow> perform_all xs s')"

section \<open>The channel table\<close>

text \<open>
  The table that the constants of MSPI.c, lines 45-62, spell out: output \<open>n\<close> (1 to 8)
  has the mask with bit \<open>n - 1\<close> set and the name \<open>OUTn\<close>.
\<close>

definition channel_mask :: "nat \<Rightarrow> INT16U" where
  "channel_mask n = 2 ^ (n - 1)"

definition channel_name :: "nat \<Rightarrow> string" where
  "channel_name n = ''OUT'' @ [''12345678'' ! (n - 1)]"

section \<open>The locking discipline of the accessors, statement by statement\<close>

text \<open>
  For the interleavings of two tasks the accessors are taken statement by statement:
  the kernel calls with the object they name, and the access to the shared variable.
  \<open>NewSpiData\<close> is the semaphore of SPI.c, line 14; \<open>getSpiData\<close> hands it to
  \<open>OSMutexPend\<close> and \<open>OSMutexPost\<close> (SPI.c, lines 82 and 84).
\<close>

datatype os_obj = Obj_SpiDataKey | Obj_NewSpiData | Obj_PwmRateKey | Obj_NewPwmRate

datatype shared_var = Var_spiMsg | Var_pwmrate

datatype stmt =
    OSMutexPend os_obj
  | OSMutexPost os_obj
  | OSSemPost os_obj
  | Read_var shared_var
  | Write_var shared_var

text \<open>SPI.c, lines 81-85.\<close>

definition getSpiData_body :: "stmt list" where
  "getSpiData_body =
     [OSMutexPend Obj_NewSpiData, Read_var Var_spiMsg, OSMutexPost Obj_NewSpiData]"

text \<open>SPI.c, lines 91-96.\<close>

definition setSpiData_body :: "stmt list" where
  "setSpiData_body =
     [OSMutexPend Obj_SpiDataKey, Write_var Var_spiMsg, OSMutexPost Obj_SpiDataKey,
      OSSemPost Obj_NewSpiData]"

text \<open>MSPI.c, lines 223-227.\<close>

definition getPwmRate_body :: "stmt list" where
  "getPwmRate_body =
     [OSMutexPend Obj_PwmRateKey, Read_var Var_pwmrate, OSMutexPost Obj_PwmRateKey]"

text \<open>MSPI.c, lines 236-241.\<close>

definition setPwmRate_body :: "stmt list" where
  "setPwmRate_body =
     [OSMutexPend Obj_PwmRateKey, Write_var Var_pwmrate, OSMutexPost Obj_PwmRateKey,
      OSSemPost Obj_NewPwmRate]"

datatype task = Producer | Transmitter

text \<open>
  Two tasks, each with the statements it has left, and the owner of every kernel object
  that has been pended on as a mutex. A pend on an object another task owns blocks
  (\<open>None\<close>); every other statement runs.
\<close>

record conf =
  left_producer :: "stmt list"
  left_transmitter :: "stmt list"
  owner :: "os_obj \<Rightarrow> task option"

fun run_stmt :: "task \<Rightarrow> stmt \<Rightarrow> (os_obj \<Rightarrow> task option) \<Rightarrow> (os_obj \<Rightarrow> task option) option" where
  "run_stmt t (OSMutexPend ob) own =
     (if own ob = None \<or> own ob = Some t then Some (own(ob := Some t)) else None)"
| "run_stmt t (OSMutexPost ob) own =
     Some (if own ob = Some t then own(ob := None) else own)"
| "run_stmt t (OSSemPost ob) own = Some own"
| "run_stmt t (Read_var v) own = Some own"
| "run_stmt t (Write_var v) own = Some own"

fun task_step :: "task \<Rightarrow> conf \<Rightarrow> conf option" where
  "task_step Producer c =
     (case left_producer c of
        [] \<Rightarrow> None
      | x # xs \<Rightarrow>
          (case run_stmt Producer x (owner c) of
             None \<Rightarrow> None
           | Some own \<Rightarrow> Some (c\<lparr>left_producer := xs, owner := own\<rparr>)))"
| "task_step Transmitter c =
     (case left_transmitter c of
        [] \<Rightarrow> None
      | x # xs \<Rightarrow>
          (case run_stmt Transmitter x (owner c) of
             None \<Rightarrow> None
           | Some own \<Rightarrow> Some (c\<lparr>left_transmitter := xs, owner := own\<rparr>)))"

fun interleave :: "task list \<Rightarrow> conf \<Rightarrow> conf option" where
  "interleave [] c = Some c"
| "interleave (t # ts) c =
     (case task_step t c of
        None \<Rightarrow> None
      | Some c' \<Rightarrow> interleave ts c')"

text \<open>The producer about to run \<open>w\<close>, the transmitter about to run \<open>r\<close>, no object owned.\<close>

definition conf_init :: "stmt list \<Rightarrow> stmt list \<Rightarrow> conf" where
  "conf_init w r = \<lparr>left_producer = w, left_transmitter = r, owner = (\<lambda>ob. None)\<rparr>"

text \<open>Both tasks stand at their access to the shared variable \<open>v\<close>.\<close>

definition both_at_access :: "shared_var \<Rightarrow> conf \<Rightarrow> bool" where
  "both_at_access v c =
     (take 1 (left_producer c) = [Write_var v] \<and> take 1 (left_transmitter c) = [Read_var v])"

text \<open>
  What holds in every configuration the two accessors of \<open>pwmrate\<close> can reach: a task
  owns \<open>PwmRateKey\<close> exactly while it stands between its pend and its post.
\<close>

definition pwm_lock_inv :: "conf \<Rightarrow> bool" where
  "pwm_lock_inv c =
     ((left_producer c = setPwmRate_body \<and> owner c Obj_PwmRateKey \<noteq> Some Producer
       \<or> left_producer c = drop 1 setPwmRate_body \<and> owner c Obj_PwmRateKey = Some Producer
       \<or> left_producer c = drop 2 setPwmRate_body \<and> owner c Obj_PwmRateKey = Some Producer
       \<or> left_producer c = drop 3 setPwmRate_body \<and> owner c Obj_PwmRateKey \<noteq> Some Producer
       \<or> left_producer c = [] \<and> owner c Obj_PwmRateKey \<noteq> Some Producer)
      \<and> (left_transmitter c = getPwmRate_body \<and> owner c Obj_PwmRateKey \<noteq> Some Transmitter
       \<or> left_transmitter c = drop 1 getPwmRate_body \<and> owner c Obj_PwmRateKey = Some Transmitter
       \<or> left_transmitter c = drop 2 getPwmRate_body \<and> owner c Obj_PwmRateKey = Some Transmitter
       \<or> left_transmitter c = [] \<and> owner c Obj_PwmRateKey \<noteq> Some Transmitter))"

section \<open>The accumulator stays below 100 while adjusting\<close>

definition acc_ok :: "sys \<Rightarrow> bool" where
  "acc_ok s = (currentstate s = ADJUST \<longrightarrow> unat (nextPWMRate s) \<le> 99)"

section \<open>Evaluation of single rounds\<close>

lemmas step_defs = UITask_step_def key_running_def key_adjust_out_def key_adjust_tens_def
  key_adjust_ones_def accept_def spi_message_def key_emergency_stop_def lcd_do_def
  setSpiData_def setPwmRate_def deref_def sys_init_def Let_def

lemma key_emergency_stop_Inl: "key_emergency_stop s = Inl (InvalidPointerRead 0)"
  by (simp add: key_emergency_stop_def setSpiData_def deref_def EMERGENCY_STOP_def)

lemma digit_key_val:
  fixes k :: INT16U
  assumes "ZERO_KEY \<le> k" "k \<le> NIN_KEY"
  shows "48 \<le> unat k \<and> unat k \<le> 57"
  using assms by (simp add: ZERO_KEY_def NIN_KEY_def word_le_nat_alt)

lemma digit_not_special:
  fixes k :: INT16U
  assumes "ZERO_KEY \<le> k" "k \<le> NIN_KEY"
  shows "k \<noteq> D_KEY \<and> k \<noteq> B_KEY \<and> k \<noteq> A_KEY"
  using digit_key_val[OF assms] by (auto simp: D_KEY_def B_KEY_def A_KEY_def)

lemma back_not_digit: "\<not> (ZERO_KEY \<le> B_KEY \<and> B_KEY \<le> NIN_KEY) \<and> B_KEY \<noteq> D_KEY"
  by (simp add: key_defs)

subsection \<open>The arithmetic of the two digit places\<close>

lemma unat_word_of_int_small:
  "m < 256 \<Longrightarrow> unat (word_of_int (int m) :: INT8U) = m"
  by (simp add: unat_of_nat)

lemma tens_value:
  fixes k :: INT16U and n :: INT8U
  assumes "ZERO_KEY \<le> k" "k \<le> NIN_KEY"
  shows "unat (tens_place k n) = 10 * (unat k - 48) + unat n mod 10"
proof -
  have k: "48 \<le> unat k \<and> unat k \<le> 57" using digit_key_val[OF assms] .
  have m: "unat n mod 10 < 10" by simp
  have e: "10 * (uint k - NUMBER_KEY_TO_DEC_FACTOR) + (uint n - 10 * (uint n div 10))
         = int (10 * (unat k - 48) + unat n mod 10)"
    unfolding uint_nat [of k] uint_nat [of n] NUMBER_KEY_TO_DEC_FACTOR_def
    using k by (simp add: minus_mult_div_eq_mod zmod_int of_nat_diff del: of_nat_unat)
  have b: "10 * (unat k - 48) + unat n mod 10 < 256" using k m by arith
  show ?thesis unfolding tens_place_def e using b by (rule unat_word_of_int_small)
qed

lemma ones_value:
  fixes k :: INT16U and n :: INT8U
  assumes "ZERO_KEY \<le> k" "k \<le> NIN_KEY" "unat n \<le> 99"
  shows "unat (ones_place k n) = (unat k - 48) + 10 * (unat n div 10)"
proof -
  have k: "48 \<le> unat k \<and> unat k \<le> 57" using digit_key_val[OF assms(1,2)] .
  have d: "unat n div 10 \<le> 9" using assms(3) by arith
  have e: "(uint k - NUMBER_KEY_TO_DEC_FACTOR) + 10 * (uint n div 10)
         = int ((unat k - 48) + 10 * (unat n div 10))"
    unfolding uint_nat [of k] uint_nat [of n] NUMBER_KEY_TO_DEC_FACTOR_def
    using k by (simp add: zdiv_int of_nat_diff del: of_nat_unat)
  have b: "(unat k - 48) + 10 * (unat n div 10) < 256" using k d by arith
  show ?thesis unfolding ones_place_def e using b by (rule unat_word_of_int_small)
qed

lemma tens_le_99:
  fixes k :: INT16U and n :: INT8U
  assumes "ZERO_KEY \<le> k" "k \<le> NIN_KEY"
  shows "unat (tens_place k n) \<le> 99"
proof -
  have k: "48 \<le> unat k \<and> unat k \<le> 57" using digit_key_val[OF assms] .
  have m: "unat n mod 10 < 10" by simp
  show ?thesis unfolding tens_value[OF assms] using k m by arith
qed

lemma ones_le_99:
  fixes k :: INT16U and n :: INT8U
  assumes "ZERO_KEY \<le> k" "k \<le> NIN_KEY" "unat n \<le> 99"
  shows "unat (ones_place k n) \<le> 99"
proof -
  have k: "48 \<le> unat k \<and> unat k \<le> 57" using digit_key_val[OF assms(1,2)] .
  have d: "unat n div 10 \<le> 9" using assms(3) by arith
  show ?thesis unfolding ones_value[OF assms] using k d by arith
qed

lemma digit_plus_tens:
  fixes d q :: nat
  assumes "d < 10"
  shows "(d + 10 * q) mod 10 = d \<and> (d + 10 * q) div 10 = q"
  using assms by simp

subsection \<open>Every round keeps the accumulator below 100 while adjusting\<close>

lemma acc_ok_running: "currentstate s = RUNNING \<Longrightarrow> acc_ok (key_running k s)"
  by (simp add: acc_ok_def key_running_def lcd_do_def)

lemma acc_ok_out: "acc_ok s \<Longrightarrow> acc_ok (key_adjust_out k s)"
  by (simp add: acc_ok_def key_adjust_out_def lcd_do_def)

lemma acc_ok_tens: "acc_ok s \<Longrightarrow> acc_ok (key_adjust_tens k s)"
  by (simp add: acc_ok_def key_adjust_tens_def lcd_do_def Let_def tens_le_99)

lemma accept_state: "accept s = Inr s' \<Longrightarrow> currentstate s' = RUNNING"
  by (auto simp: accept_def lcd_do_def split: sum.splits if_splits)

lemma acc_ok_ones:
  assumes "key_adjust_ones k s = Inr s'" "acc_ok s" "currentstate s = ADJUST"
  shows "acc_ok s'"
proof -
  have n: "unat (nextPWMRate s) \<le> 99" using assms(2,3) by (simp add: acc_ok_def)
  show ?thesis
  proof (cases "ZERO_KEY \<le> k \<and> k \<le> NIN_KEY")
    case True
    then show ?thesis using assms(1) n
      by (auto simp: key_adjust_ones_def lcd_do_def Let_def acc_ok_def ones_le_99)
  next
    case False
    then show ?thesis using assms(1,2) accept_state[of s s']
      by (auto simp: key_adjust_ones_def lcd_do_def acc_ok_def split: if_splits)
  qed
qed

lemma acc_ok_spi: "acc_ok (spi_message v s)"
  by (simp add: acc_ok_def spi_message_def lcd_do_def)

lemma acc_ok_step:
  assumes "UITask_step sz k s = Inr s'" "acc_ok s"
  shows "acc_ok s'"
proof (cases "sz = 1")
  case True
  note sz = this
  show ?thesis
  proof (cases "k = D_KEY")
    case True
    then show ?thesis using assms(1) sz by (simp add: UITask_step_def key_emergency_stop_Inl)
  next
    case False
    note nd = this
    show ?thesis
    proof (cases "currentstate s")
      case RUNNING
      then show ?thesis using assms(1) sz nd acc_ok_running[of s k]
        by (auto simp: UITask_step_def)
    next
      case ADJUST
      then show ?thesis
        using assms sz nd acc_ok_out[of s k] acc_ok_tens[of s k] acc_ok_ones[of k s s']
        by (cases "currentplace s") (auto simp: UITask_step_def)
    next
      case FAULT
      then show ?thesis using assms sz nd by (auto simp: UITask_step_def)
    qed
  qed
next
  case False
  then show ?thesis using assms acc_ok_spi[of k s]
    by (auto simp: UITask_step_def split: if_splits)
qed

lemma acc_ok_UITask: "UITask ms s = Inr s' \<Longrightarrow> acc_ok s \<Longrightarrow> acc_ok s'"
proof (induction ms arbitrary: s)
  case Nil
  then show ?case by simp
next
  case (Cons m ms)
  obtain sz k where m: "m = (sz, k)" by (cases m)
  from Cons.prems(1) obtain s1 where s1: "UITask_step sz k s = Inr s1" "UITask ms s1 = Inr s'"
    by (auto simp: m split: sum.splits)
  from acc_ok_step[OF s1(1) Cons.prems(2)] have "acc_ok s1" .
  from Cons.IH[OF s1(2) this] show ?case .
qed

lemma acc_ok_init: "acc_ok (sys_init w p m)"
  by (simp add: acc_ok_def sys_init_def)

lemma reachable_acc:
  "UITask ms (sys_init w p m) = Inr s \<Longrightarrow> currentstate s = ADJUST \<Longrightarrow> unat (nextPWMRate s) \<le> 99"
  using acc_ok_UITask[OF _ acc_ok_init] by (auto simp: acc_ok_def)

section \<open>The emergency stop key\<close>

text \<open>
  Claim C1 says that the emergency stop key (\<open>D_KEY\<close>, a one-byte message), in every
  state, stores \<open>0x0000\<close> as the command word, stores 0 as the duty cycle and leaves the
  state machine RUNNING. The code does not get there: MSPI.c, line 274, hands the integer
  constant \<open>EMERGENCY_STOP\<close> to \<open>setSpiData\<close>, whose parameter is a pointer, so
  \<open>spiMsg = *passmsg\<close> (SPI.c, line 93) reads through the null pointer. In every state
  the round for the key ends in that invalid read, and so does the call by itself.
\<close>

theorem emergency_stop_key_reads_through_null:
  "UITask_step 1 D_KEY s = Inl (InvalidPointerRead 0)
   \<and> setSpiData (FromInteger (unat EMERGENCY_STOP)) s = Inl (InvalidPointerRead 0)"
  by (simp add: UITask_step_def key_emergency_stop_Inl setSpiData_def deref_def EMERGENCY_STOP_def)

section \<open>Committing an ADJUST episode\<close>

text \<open>
  Claim C2 says that a committed episode with duty cycle 0 stores the one-hot mask of the
  chosen channel as the command word and issues no PWM update, and that one with a nonzero
  duty cycle stores the emergency stop pattern and then the duty cycle. At the keys
  select, 4, 0, 0, accept the code stores \<open>OUTPUT_ONE_MASK\<close>, the mask of output 1, for
  the channel it displays as OUT4 (MSPI.c, line 311; output 4 has \<open>OUTPUT_FOU_MASK\<close>);
  likewise it stores \<open>OUTPUT_THR_MASK\<close> for the channel it displays as OUT7 (line 325);
  the PWM semaphore is not posted. At the keys select, 4, 0, 7, accept the commit passes
  \<open>EMERGENCY_STOP\<close> as the pointer (MSPI.c, line 371) and ends in the invalid read.
\<close>

theorem commit_stores_mask_of_output_one_or_reads_null:
  "(\<exists>s. UITask [(1, A_KEY), (1, FOUR_KEY), (1, ZERO_KEY), (1, ZERO_KEY), (1, A_KEY)]
            (sys_init w p m) = Inr s
        \<and> currentstate s = RUNNING \<and> whichOutput s = 4 \<and> nextPWMRate s = 0
        \<and> spiMsg s = OUTPUT_ONE_MASK \<and> spiMsg s \<noteq> channel_mask 4
        \<and> channel_mask 4 = OUTPUT_FOU_MASK \<and> NewPwmRate s = 0)
   \<and> (\<exists>s. UITask [(1, A_KEY), (1, SEV_KEY), (1, ZERO_KEY), (1, ZERO_KEY), (1, A_KEY)]
            (sys_init w p m) = Inr s
        \<and> currentstate s = RUNNING \<and> whichOutput s = 7 \<and> nextPWMRate s = 0
        \<and> spiMsg s = OUTPUT_THR_MASK \<and> spiMsg s \<noteq> channel_mask 7
        \<and> channel_mask 7 = OUTPUT_SEV_MASK \<and> NewPwmRate s = 0)
   \<and> UITask [(1, A_KEY), (1, FOUR_KEY), (1, ZERO_KEY), (1, SEV_KEY), (1, A_KEY)]
         (sys_init w p m) = Inl (InvalidPointerRead 0)"
  by (simp add: step_defs key_defs mask_defs channel_mask_def tens_place_def ones_place_def
      NUMBER_KEY_TO_DEC_FACTOR_def EMERGENCY_STOP_def)

section \<open>Fault messages\<close>

text \<open>A zero fault message in state FAULT returns to RUNNING and shows the status layer.\<close>

lemma zero_fault_in_FAULT_returns_to_RUNNING:
  "currentstate s = FAULT \<Longrightarrow>
   UITask_step 2 NO_FAULT s =
     Inr (s\<lparr>lcd := lcd s @ [LcdHideLayer FAULT_LAYER, LcdShowLayer UI_LAYER],
           currentstate := RUNNING\<rparr>)"
  by (simp add: UITask_step_def spi_message_def lcd_do_def)

lemma zero_fault_outside_FAULT:
  "currentstate s \<noteq> FAULT \<Longrightarrow>
   UITask_step 2 NO_FAULT s =
     Inr (s\<lparr>lcd := lcd s @
             [LcdHideLayer UI_LAYER,
              LcdDispString STATUS_ROW FIRST_COL FAULT_LAYER FAULT_MSG,
              LcdDispString STATUS_ROW FAULT_MSG_OUT_COLLEM FAULT_LAYER MULIT_FAULT_MSG,
              LcdShowLayer FAULT_LAYER],
           currentstate := FAULT\<rparr>)"
  by (simp add: UITask_step_def spi_message_def lcd_do_def fault_name_def NO_FAULT_def mask_defs)

text \<open>
  Claim C3 says that a two-byte message with value 0 takes FAULT to RUNNING and restores
  the status display, and is a no-op in state RUNNING, also when repeated. The first half
  holds (lemma \<open>zero_fault_in_FAULT_returns_to_RUNNING\<close>). In state RUNNING the test of
  MSPI.c, line 399, fails and the branch commented "Fault Detected" runs: from the initial
  state, one zero message hides the status layer, writes "Fault: " and "Many" on the fault
  layer, shows it and enters FAULT; a second zero message returns to RUNNING.
\<close>

theorem zero_fault_while_running_enters_FAULT:
  "currentstate (sys_init w p m) = RUNNING
   \<and> UITask_step 2 NO_FAULT (sys_init w p m) =
       Inr ((sys_init w p m)\<lparr>lcd := lcd (sys_init w p m) @
               [LcdHideLayer UI_LAYER,
                LcdDispString STATUS_ROW FIRST_COL FAULT_LAYER FAULT_MSG,
                LcdDispString STATUS_ROW FAULT_MSG_OUT_COLLEM FAULT_LAYER MULIT_FAULT_MSG,
                LcdShowLayer FAULT_LAYER],
             currentstate := FAULT\<rparr>)
   \<and> UITask [(2, NO_FAULT), (2, NO_FAULT)] (sys_init w p m) =
       Inr ((sys_init w p m)\<lparr>lcd := lcd (sys_init w p m) @
               [LcdHideLayer UI_LAYER,
                LcdDispString STATUS_ROW FIRST_COL FAULT_LAYER FAULT_MSG,
                LcdDispString STATUS_ROW FAULT_MSG_OUT_COLLEM FAULT_LAYER MULIT_FAULT_MSG,
                LcdShowLayer FAULT_LAYER,
                LcdHideLayer FAULT_LAYER,
                LcdShowLayer UI_LAYER]\<rparr>)"
proof -
  have r: "currentstate (sys_init w p m) = RUNNING" by (simp add: sys_init_def)
  then have nf: "currentstate (sys_init w p m) \<noteq> FAULT" by simp
  note one = zero_fault_outside_FAULT[OF nf]
  have two: "UITask [(2, NO_FAULT), (2, NO_FAULT)] (sys_init w p m) =
       Inr ((sys_init w p m)\<lparr>lcd := lcd (sys_init w p m) @
               [LcdHideLayer UI_LAYER,
                LcdDispString STATUS_ROW FIRST_COL FAULT_LAYER FAULT_MSG,
                LcdDispString STATUS_ROW FAULT_MSG_OUT_COLLEM FAULT_LAYER MULIT_FAULT_MSG,
                LcdShowLayer FAULT_LAYER,
                LcdHideLayer FAULT_LAYER,
                LcdShowLayer UI_LAYER]\<rparr>)"
    by (simp add: one zero_fault_in_FAULT_returns_to_RUNNING) (simp add: sys_init_def)
  show ?thesis using r one two by (intro conjI)
qed

section \<open>The lock around the command word\<close>

text \<open>
  In the model of the interleavings a mutex does exclude: the two accessors of
  \<open>pwmrate\<close> pend on the same object \<open>PwmRateKey\<close>; once the writer holds it the
  reader cannot pass its pend, and no schedule brings both to their access together.
\<close>

lemma pwmrate_accessors_exclude:
  "interleave [Producer, Transmitter] (conf_init setPwmRate_body getPwmRate_body) = None"
  by (simp add: conf_init_def setPwmRate_body_def getPwmRate_body_def)

lemma pwm_lock_inv_init: "pwm_lock_inv (conf_init setPwmRate_body getPwmRate_body)"
  by (simp add: pwm_lock_inv_def conf_init_def)

lemma pwm_lock_inv_step:
  "task_step t c = Some c' \<Longrightarrow> pwm_lock_inv c \<Longrightarrow> pwm_lock_inv c'"
  by (cases t)
    (auto simp: pwm_lock_inv_def setPwmRate_body_def getPwmRate_body_def
      split: list.splits option.splits if_splits)

lemma pwm_lock_inv_interleave:
  "interleave ts c = Some c' \<Longrightarrow> pwm_lock_inv c \<Longrightarrow> pwm_lock_inv c'"
proof (induction ts arbitrary: c)
  case Nil
  then show ?case by simp
next
  case (Cons t ts)
  from Cons.prems(1) obtain c1 where c1: "task_step t c = Some c1" "interleave ts c1 = Some c'"
    by (auto split: option.splits)
  from Cons.IH[OF c1(2) pwm_lock_inv_step[OF c1(1) Cons.prems(2)]] show ?case .
qed

text \<open>Under no schedule do the two accessors of \<open>pwmrate\<close> stand at their access together.\<close>

lemma pwmrate_accessors_never_overlap:
  "interleave ts (conf_init setPwmRate_body getPwmRate_body) = Some c \<Longrightarrow>
   \<not> both_at_access Var_pwmrate c"
  using pwm_lock_inv_interleave[OF _ pwm_lock_inv_init, of ts c]
  by (auto simp: pwm_lock_inv_def both_at_access_def setPwmRate_body_def getPwmRate_body_def)

text \<open>
  Claim C4 says that every read of the command word by the transmitter and every write of
  it by the UI task are made while holding the same mutual-exclusion lock. In the code
  \<open>setSpiData\<close> pends on the mutex \<open>SpiDataKey\<close> (SPI.c, line 92) and \<open>getSpiData\<close>
  pends on \<open>NewSpiData\<close> (SPI.c, line 82), the semaphore that \<open>setSpiData\<close> posts:
  two different objects. With the schedule "the producer runs its pend, then the
  transmitter runs its pend" neither blocks, and both tasks stand at their access to
  \<open>spiMsg\<close> at the same time, each owning only its own object.
\<close>

theorem spiMsg_accessors_overlap:
  "(case interleave [Producer, Transmitter] (conf_init setSpiData_body getSpiData_body) of
      None \<Rightarrow> False
    | Some c \<Rightarrow>
        both_at_access Var_spiMsg c
        \<and> owner c Obj_SpiDataKey = Some Producer
        \<and> owner c Obj_NewSpiData = Some Transmitter)"
  by (simp add: conf_init_def setSpiData_body_def getSpiData_body_def both_at_access_def)

section \<open>Decoding a fault word\<close>

lemma fault_name_table:
  "1 \<le> n \<Longrightarrow> n \<le> 8 \<Longrightarrow> (fault_name v = channel_name n) = (v = channel_mask n)"
proof -
  assume "1 \<le> n" "n \<le> 8"
  then have "n \<in> set [1, 2, 3, 4, 5, 6, 7, 8]" by simp arith
  moreover have "\<forall>i \<in> set [1, 2, 3, 4, 5, 6, 7, 8 :: nat].
      (fault_name v = channel_name i) = (v = channel_mask i)"
    by (simp add: fault_name_def channel_name_def channel_mask_def mask_defs msg_defs)
  ultimately show ?thesis by blast
qed

lemma fault_name_many:
  "(\<And>n. 1 \<le> n \<Longrightarrow> n \<le> 8 \<Longrightarrow> v \<noteq> channel_mask n) \<Longrightarrow> fault_name v = MULIT_FAULT_MSG"
proof -
  assume h: "\<And>n. 1 \<le> n \<Longrightarrow> n \<le> 8 \<Longrightarrow> v \<noteq> channel_mask n"
  have "v \<noteq> 1" "v \<noteq> 2" "v \<noteq> 4" "v \<noteq> 8" "v \<noteq> 16" "v \<noteq> 32" "v \<noteq> 64" "v \<noteq> 128"
    using h[of 1] h[of 2] h[of 3] h[of 4] h[of 5] h[of 6] h[of 7] h[of 8]
    by (simp_all add: channel_mask_def)
  then show ?thesis by (simp add: fault_name_def mask_defs)
qed

lemma interval_1_8: "{1..8::nat} = set [1, 2, 3, 4, 5, 6, 7, 8]"
  by auto

lemma three_is_no_mask: "\<forall>n\<in>{1..8}. (3::INT16U) \<noteq> channel_mask n"
  unfolding interval_1_8 by (simp add: channel_mask_def)

text \<open>
  A value with one bit set that is none of the eight masks, and a value with two bits
  set, both get the generic indicator: the test is equality with a mask, not a count of
  the bits.
\<close>

lemma fault_name_not_a_bit_count:
  "fault_name 0x0100 = MULIT_FAULT_MSG \<and> fault_name 0x0003 = MULIT_FAULT_MSG"
  by (simp add: fault_name_def mask_defs)

text \<open>
  Claim C5: for every nonzero value of a two-byte message, in every state, the UI enters
  FAULT, hiding the status layer and showing the fault layer with "Fault: " followed by
  one name; the name is that of output \<open>n\<close> exactly when the value equals the mask of
  output \<open>n\<close> (for each of the eight outputs), and it is the generic "Many" for every
  value that equals none of the eight masks.
\<close>

theorem nonzero_fault_names_channel_by_equality:
  assumes "v \<noteq> NO_FAULT"
  shows "UITask_step 2 v s =
      Inr (s\<lparr>lcd := lcd s @
             [LcdHideLayer UI_LAYER,
              LcdDispString STATUS_ROW FIRST_COL FAULT_LAYER FAULT_MSG,
              LcdDispString STATUS_ROW FAULT_MSG_OUT_COLLEM FAULT_LAYER (fault_name v),
              LcdShowLayer FAULT_LAYER],
            currentstate := FAULT\<rparr>)
    \<and> (\<forall>n\<in>{1..8}. (fault_name v = channel_name n) = (v = channel_mask n))
    \<and> ((\<forall>n\<in>{1..8}. v \<noteq> channel_mask n) \<longrightarrow> fault_name v = MULIT_FAULT_MSG)"
  using assms fault_name_table[of _ v] fault_name_many[of v]
  by (simp add: UITask_step_def spi_message_def lcd_do_def)

theorem nonzero_fault_names_channel_by_equality_witness:
  "OUTPUT_SEV_MASK \<noteq> NO_FAULT \<and> (7::nat) \<in> {1..8} \<and> OUTPUT_SEV_MASK = channel_mask 7
   \<and> fault_name OUTPUT_SEV_MASK = channel_name 7
   \<and> channel_name 7 = ''OUT7''
   \<and> (3 :: INT16U) \<noteq> NO_FAULT \<and> fault_name 3 = MULIT_FAULT_MSG
   \<and> UITask_step 2 OUTPUT_SEV_MASK (sys_init 0 0 0) =
      Inr ((sys_init 0 0 0)\<lparr>lcd := lcd (sys_init 0 0 0) @
             [LcdHideLayer UI_LAYER,
              LcdDispString STATUS_ROW FIRST_COL FAULT_LAYER FAULT_MSG,
              LcdDispString STATUS_ROW FAULT_MSG_OUT_COLLEM FAULT_LAYER (fault_name OUTPUT_SEV_MASK),
              LcdShowLayer FAULT_LAYER],
            currentstate := FAULT\<rparr>)"
proof -
  have h: "OUTPUT_SEV_MASK \<noteq> NO_FAULT" by (simp add: mask_defs NO_FAULT_def)
  have m: "(7::nat) \<in> {1..8}" by simp
  have k: "OUTPUT_SEV_MASK = channel_mask 7" by (simp add: mask_defs channel_mask_def)
  have n: "channel_name 7 = ''OUT7''" by (simp add: channel_name_def)
  note t = nonzero_fault_names_channel_by_equality[OF h, of "sys_init 0 0 0"]
  from t have a: "UITask_step 2 OUTPUT_SEV_MASK (sys_init 0 0 0) =
      Inr ((sys_init 0 0 0)\<lparr>lcd := lcd (sys_init 0 0 0) @
             [LcdHideLayer UI_LAYER,
              LcdDispString STATUS_ROW FIRST_COL FAULT_LAYER FAULT_MSG,
              LcdDispString STATUS_ROW FAULT_MSG_OUT_COLLEM FAULT_LAYER (fault_name OUTPUT_SEV_MASK),
              LcdShowLayer FAULT_LAYER],
            currentstate := FAULT\<rparr>)" by (rule conjunct1)
  from t have "\<forall>n\<in>{1..8}. (fault_name OUTPUT_SEV_MASK = channel_name n) = (OUTPUT_SEV_MASK = channel_mask n)"
    by (rule conjunct1 [OF conjunct2])
  from bspec[OF this m] k have b: "fault_name OUTPUT_SEV_MASK = channel_name 7" by blast
  have h3: "(3 :: INT16U) \<noteq> NO_FAULT" by (simp add: NO_FAULT_def)
  from nonzero_fault_names_channel_by_equality[OF h3, of "sys_init 0 0 0"] three_is_no_mask
  have c: "fault_name 3 = MULIT_FAULT_MSG" by blast
  show ?thesis using h m k n h3 c a b by (intro conjI)
qed

section \<open>The range of the stored duty cycle\<close>

text \<open>
  Claim C6 says that \<open>pwmrate\<close> always holds a value in 0..99, because every value the
  UI task passes to \<open>setPwmRate\<close> is the emergency stop zero or a number made of two
  decimal digits. The digits part holds: while adjusting, the accumulator stays below 100
  (lemma \<open>reachable_acc\<close>). The emergency stop part does not: MSPI.c, line 275, passes
  \<open>(INT8U)EMERGENCY_STOP\<close>, an integer, as the pointer parameter, so \<open>setPwmRate\<close> reads
  through the null pointer and no zero is stored; from the initial state the emergency
  stop key ends in an invalid read.
\<close>

theorem emergency_stop_duty_is_a_null_pointer:
  "setPwmRate (FromInteger (unat (ucast EMERGENCY_STOP :: INT8U))) s = Inl (InvalidPointerRead 0)
   \<and> UITask [(1, D_KEY)] (sys_init w p m) = Inl (InvalidPointerRead 0)"
  by (simp add: setPwmRate_def deref_def EMERGENCY_STOP_def UITask_step_def key_emergency_stop_Inl)

section \<open>The two digits of the accumulator\<close>

text \<open>
  Claim C7: in every state the UI task reaches while adjusting, with \<open>k\<close> a digit key:
  in the tens place the key sets the tens digit to the key's digit and keeps the ones
  digit, and moves to the ones place; in the ones place the key sets the ones digit and
  keeps the tens digit; in both the accumulator is tens * 10 + ones. The back key in the
  ones place returns to the tens place with the accumulator as it was; the back key in the
  tens place returns to the selection of the output with the accumulator 0.
\<close>

theorem accumulator_digits_independent:
  assumes reach: "UITask ms (sys_init w p m) = Inr s"
    and adj: "currentstate s = ADJUST"
    and dig: "ZERO_KEY \<le> k \<and> k \<le> NIN_KEY"
  shows
    "(currentplace s = TENS \<longrightarrow>
        (\<exists>s'. UITask_step 1 k s = Inr s' \<and> currentplace s' = ONES
           \<and> unat (nextPWMRate s') div 10 = unat k - 48
           \<and> unat (nextPWMRate s') mod 10 = unat (nextPWMRate s) mod 10
           \<and> unat (nextPWMRate s') = (unat k - 48) * 10 + unat (nextPWMRate s) mod 10)
      \<and> (\<exists>s'. UITask_step 1 B_KEY s = Inr s' \<and> currentplace s' = OUT \<and> nextPWMRate s' = 0))
   \<and> (currentplace s = ONES \<longrightarrow>
        (\<exists>s'. UITask_step 1 k s = Inr s' \<and> currentplace s' = ONES
           \<and> unat (nextPWMRate s') mod 10 = unat k - 48
           \<and> unat (nextPWMRate s') div 10 = unat (nextPWMRate s) div 10
           \<and> unat (nextPWMRate s') = (unat (nextPWMRate s) div 10) * 10 + (unat k - 48))
      \<and> (\<exists>s'. UITask_step 1 B_KEY s = Inr s' \<and> currentplace s' = TENS
           \<and> nextPWMRate s' = nextPWMRate s))"
proof -
  have kv: "48 \<le> unat k \<and> unat k \<le> 57" using dig digit_key_val by blast
  have ks: "k \<noteq> D_KEY \<and> k \<noteq> B_KEY \<and> k \<noteq> A_KEY" using dig digit_not_special by blast
  have n99: "unat (nextPWMRate s) \<le> 99" using reachable_acc[OF reach adj] .
  have tv: "unat (tens_place k (nextPWMRate s)) = 10 * (unat k - 48) + unat (nextPWMRate s) mod 10"
    using dig tens_value by blast
  have ov: "unat (ones_place k (nextPWMRate s)) = (unat k - 48) + 10 * (unat (nextPWMRate s) div 10)"
    using dig n99 ones_value by blast
  have t1: "(10 * (unat k - 48) + unat (nextPWMRate s) mod 10) div 10 = unat k - 48" by simp
  have t2: "(10 * (unat k - 48) + unat (nextPWMRate s) mod 10) mod 10 = unat (nextPWMRate s) mod 10"
    by simp
  have dk: "unat k - 48 < 10" using kv by arith
  have o1: "((unat k - 48) + 10 * (unat (nextPWMRate s) div 10)) mod 10 = unat k - 48"
    using dk digit_plus_tens by blast
  have o2: "((unat k - 48) + 10 * (unat (nextPWMRate s) div 10)) div 10 = unat (nextPWMRate s) div 10"
    using dk digit_plus_tens by blast
  have A: "currentplace s = TENS \<Longrightarrow> UITask_step 1 k s = Inr (key_adjust_tens k s)"
    using adj ks by (simp add: UITask_step_def)
  have B: "currentplace s = TENS \<Longrightarrow> UITask_step 1 B_KEY s = Inr (key_adjust_tens B_KEY s)"
    using adj back_not_digit by (simp add: UITask_step_def)
  have C: "currentplace s = ONES \<Longrightarrow> UITask_step 1 k s = key_adjust_ones k s"
    using adj ks by (simp add: UITask_step_def)
  have D: "currentplace s = ONES \<Longrightarrow> UITask_step 1 B_KEY s = key_adjust_ones B_KEY s"
    using adj back_not_digit by (simp add: UITask_step_def)
  have P1: "currentplace s = TENS \<Longrightarrow>
      (\<exists>s'. UITask_step 1 k s = Inr s' \<and> currentplace s' = ONES
           \<and> unat (nextPWMRate s') div 10 = unat k - 48
           \<and> unat (nextPWMRate s') mod 10 = unat (nextPWMRate s) mod 10
           \<and> unat (nextPWMRate s') = (unat k - 48) * 10 + unat (nextPWMRate s) mod 10)"
    using A dig tv t1 t2 by (simp add: key_adjust_tens_def Let_def lcd_do_def)
  have P2: "currentplace s = TENS \<Longrightarrow>
      (\<exists>s'. UITask_step 1 B_KEY s = Inr s' \<and> currentplace s' = OUT \<and> nextPWMRate s' = 0)"
    using B back_not_digit by (simp add: key_adjust_tens_def lcd_do_def)
  have P3: "currentplace s = ONES \<Longrightarrow>
      (\<exists>s'. UITask_step 1 k s = Inr s' \<and> currentplace s' = ONES
           \<and> unat (nextPWMRate s') mod 10 = unat k - 48
           \<and> unat (nextPWMRate s') div 10 = unat (nextPWMRate s) div 10
           \<and> unat (nextPWMRate s') = (unat (nextPWMRate s) div 10) * 10 + (unat k - 48))"
    using C dig ov o1 o2 by (simp add: key_adjust_ones_def Let_def lcd_do_def)
  have P4: "currentplace s = ONES \<Longrightarrow>
      (\<exists>s'. UITask_step 1 B_KEY s = Inr s' \<and> currentplace s' = TENS
           \<and> nextPWMRate s' = nextPWMRate s)"
    using D back_not_digit by (simp add: key_adjust_ones_def lcd_do_def)
  show ?thesis using P1 P2 P3 P4 by blast
qed

lemma run_to_tens:
  "\<exists>s. UITask [(1, A_KEY), (1, SEV_KEY), (1, NIN_KEY), (1, THR_KEY), (1, B_KEY)] (sys_init 0 0 0) = Inr s
     \<and> currentstate s = ADJUST \<and> currentplace s = TENS \<and> nextPWMRate s = 93"
  by (simp add: step_defs key_defs tens_place_def ones_place_def NUMBER_KEY_TO_DEC_FACTOR_def)

lemma run_to_ones:
  "\<exists>s. UITask [(1, A_KEY), (1, SEV_KEY), (1, NIN_KEY), (1, THR_KEY)] (sys_init 0 0 0) = Inr s
     \<and> currentstate s = ADJUST \<and> currentplace s = ONES \<and> nextPWMRate s = 93"
  by (simp add: step_defs key_defs tens_place_def ones_place_def NUMBER_KEY_TO_DEC_FACTOR_def)

theorem accumulator_digits_independent_witness:
  "(\<exists>s s' s''.
      UITask [(1, A_KEY), (1, SEV_KEY), (1, NIN_KEY), (1, THR_KEY), (1, B_KEY)] (sys_init 0 0 0) = Inr s
      \<and> currentstate s = ADJUST \<and> currentplace s = TENS \<and> unat (nextPWMRate s) = 93
      \<and> ZERO_KEY \<le> FIV_KEY \<and> FIV_KEY \<le> NIN_KEY
      \<and> UITask_step 1 FIV_KEY s = Inr s' \<and> unat (nextPWMRate s') = 53
      \<and> UITask_step 1 B_KEY s = Inr s'' \<and> nextPWMRate s'' = 0)
   \<and> (\<exists>s s' s''.
      UITask [(1, A_KEY), (1, SEV_KEY), (1, NIN_KEY), (1, THR_KEY)] (sys_init 0 0 0) = Inr s
      \<and> currentstate s = ADJUST \<and> currentplace s = ONES \<and> unat (nextPWMRate s) = 93
      \<and> UITask_step 1 FIV_KEY s = Inr s' \<and> unat (nextPWMRate s') = 95
      \<and> UITask_step 1 B_KEY s = Inr s'' \<and> currentplace s'' = TENS \<and> unat (nextPWMRate s'') = 93)"
proof -
  have d: "ZERO_KEY \<le> FIV_KEY \<and> FIV_KEY \<le> NIN_KEY" by (simp add: key_defs)
  have u: "unat FIV_KEY - 48 = 5" by (simp add: key_defs)
  obtain s where s:
    "UITask [(1, A_KEY), (1, SEV_KEY), (1, NIN_KEY), (1, THR_KEY), (1, B_KEY)] (sys_init 0 0 0) = Inr s"
    "currentstate s = ADJUST" "currentplace s = TENS" "nextPWMRate s = 93"
    using run_to_tens by blast
  obtain r where r:
    "UITask [(1, A_KEY), (1, SEV_KEY), (1, NIN_KEY), (1, THR_KEY)] (sys_init 0 0 0) = Inr r"
    "currentstate r = ADJUST" "currentplace r = ONES" "nextPWMRate r = 93"
    using run_to_ones by blast
  have one: "\<exists>s s' s''.
      UITask [(1, A_KEY), (1, SEV_KEY), (1, NIN_KEY), (1, THR_KEY), (1, B_KEY)] (sys_init 0 0 0) = Inr s
      \<and> currentstate s = ADJUST \<and> currentplace s = TENS \<and> unat (nextPWMRate s) = 93
      \<and> ZERO_KEY \<le> FIV_KEY \<and> FIV_KEY \<le> NIN_KEY
      \<and> UITask_step 1 FIV_KEY s = Inr s' \<and> unat (nextPWMRate s') = 53
      \<and> UITask_step 1 B_KEY s = Inr s'' \<and> nextPWMRate s'' = 0"
    using accumulator_digits_independent[OF s(1) s(2) d] s u d by auto
  have two: "\<exists>s s' s''.
      UITask [(1, A_KEY), (1, SEV_KEY), (1, NIN_KEY), (1, THR_KEY)] (sys_init 0 0 0) = Inr s
      \<and> currentstate s = ADJUST \<and> currentplace s = ONES \<and> unat (nextPWMRate s) = 93
      \<and> UITask_step 1 FIV_KEY s = Inr s' \<and> unat (nextPWMRate s') = 95
      \<and> UITask_step 1 B_KEY s = Inr s'' \<and> currentplace s'' = TENS \<and> unat (nextPWMRate s'') = 93"
    using accumulator_digits_independent[OF r(1) r(2) d] r u d by auto
  show ?thesis using one two by (rule conjI)
qed

section \<open>Selecting the output\<close>

text \<open>
  Claim C8 says that while selecting the output only the keys 4 and 7 are recognised and
  every other key leaves everything unchanged. The emergency stop key is another key and
  is not ignored: it is tested before the dispatch on the state (MSPI.c, line 273). In the
  state reached by the select key, the round for \<open>D_KEY\<close> does not return that state.
\<close>

theorem select_output_emergency_stop_counterexample:
  "UITask [(1, A_KEY)] (sys_init 0 0 0) = Inr (key_running A_KEY (sys_init 0 0 0))
   \<and> currentstate (key_running A_KEY (sys_init 0 0 0)) = ADJUST
   \<and> currentplace (key_running A_KEY (sys_init 0 0 0)) = OUT
   \<and> D_KEY \<noteq> FOUR_KEY \<and> D_KEY \<noteq> SEV_KEY
   \<and> UITask_step 1 D_KEY (key_running A_KEY (sys_init 0 0 0))
       \<noteq> Inr (key_running A_KEY (sys_init 0 0 0))"
  by (simp add: step_defs key_defs EMERGENCY_STOP_def)

text \<open>
  Claim C8, amended: while selecting the output, every one-byte message other than the
  keys 4 and 7 and the emergency stop key leaves the whole state unchanged (UI state,
  sub-state, pending selection, shared variables, and no display call is made); key 4
  selects output 4 and key 7 selects output 7, both moving to the tens place. So the keys
  1, 2, 3, 5, 6 and 8 select nothing.
\<close>

theorem select_output_recognises_only_four_and_seven:
  assumes "currentstate s = ADJUST" and "currentplace s = OUT" and "k \<noteq> D_KEY"
  shows "(k \<noteq> FOUR_KEY \<and> k \<noteq> SEV_KEY \<longrightarrow> UITask_step 1 k s = Inr s)
    \<and> (\<exists>s'. UITask_step 1 FOUR_KEY s = Inr s' \<and> currentstate s' = ADJUST
          \<and> currentplace s' = TENS \<and> whichOutput s' = 4)
    \<and> (\<exists>s'. UITask_step 1 SEV_KEY s = Inr s' \<and> currentstate s' = ADJUST
          \<and> currentplace s' = TENS \<and> whichOutput s' = 7)"
  using assms
  by (simp add: UITask_step_def key_adjust_out_def lcd_do_def FOUR_KEY_def SEV_KEY_def D_KEY_def)

theorem select_output_recognises_only_four_and_seven_witness:
  "currentstate (key_running A_KEY (sys_init 0 0 0)) = ADJUST
   \<and> currentplace (key_running A_KEY (sys_init 0 0 0)) = OUT
   \<and> ONE_KEY \<noteq> D_KEY \<and> ONE_KEY \<noteq> FOUR_KEY \<and> ONE_KEY \<noteq> SEV_KEY
   \<and> UITask_step 1 ONE_KEY (key_running A_KEY (sys_init 0 0 0))
       = Inr (key_running A_KEY (sys_init 0 0 0))"
proof -
  have a: "currentstate (key_running A_KEY (sys_init 0 0 0)) = ADJUST"
    and b: "currentplace (key_running A_KEY (sys_init 0 0 0)) = OUT"
    by (simp_all add: key_running_def lcd_do_def)
  have c: "ONE_KEY \<noteq> D_KEY" and d: "ONE_KEY \<noteq> FOUR_KEY \<and> ONE_KEY \<noteq> SEV_KEY"
    by (simp_all add: key_defs)
  from select_output_recognises_only_four_and_seven[OF a b c] a b c d show ?thesis by blast
qed

section \<open>The fault word handed to the UI task\<close>

lemma ucast_down_up:
  fixes w :: INT16U
  shows "unat (ucast (ucast w :: INT8U) :: INT16U) = unat w mod 2 ^ 8"
proof -
  have "unat (ucast (ucast w :: INT8U) :: INT16U) = take_bit 16 (take_bit 8 (unat w))"
    by (simp add: unsigned_ucast_eq unsigned_take_bit_eq)
  also have "\<dots> = take_bit 8 (unat w)" by simp
  finally show ?thesis by (simp add: take_bit_eq_mod)
qed

lemma ucast_up_bound:
  fixes b :: INT8U
  shows "unat (ucast b :: INT16U) < 2 ^ 8"
proof -
  have "unat (ucast b :: INT16U) = take_bit 16 (unat b)" by (simp add: unsigned_ucast_eq)
  also have "\<dots> \<le> unat b" by (rule take_bit_nat_less_eq_self)
  also have "unat b < 2 ^ 8" using unsigned_less[of b] by simp
  finally show ?thesis .
qed

text \<open>
  Claim C9: for every fault event (the fault semaphore has been posted), the round of
  \<open>UISPISrvTask\<close> returns and hands the UI task a two-byte message whose value is the
  8-bit \<open>spiFault\<close> widened to 16 bits: it is below \<open>2^8\<close>, and whenever \<open>spiFault\<close>
  holds a 16-bit fault word as converted to INT8U, the value is that word modulo \<open>2^8\<close>,
  so nothing of the upper byte reaches the UI task.
\<close>

theorem fault_word_truncated_to_8_bits:
  assumes "0 < spiFaultFlag s"
  shows "UISPISrvTask s = Inr ((2, ucast (spiFault s)), s\<lparr>spiFaultFlag := spiFaultFlag s - 1\<rparr>)
     \<and> unat (ucast (spiFault s) :: INT16U) < 2 ^ 8
     \<and> (\<forall>w :: INT16U. spiFault s = ucast w \<longrightarrow>
            unat (ucast (spiFault s) :: INT16U) = unat w mod 2 ^ 8)"
  using assms ucast_up_bound[of "spiFault s"] ucast_down_up
  by (auto simp: UISPISrvTask_def SPIPend_def)

theorem fault_word_truncated_to_8_bits_witness:
  "0 < spiFaultFlag ((sys_init 0 0 0)\<lparr>spiFault := ucast (0x0134 :: INT16U), spiFaultFlag := 1\<rparr>)
   \<and> UISPISrvTask ((sys_init 0 0 0)\<lparr>spiFault := ucast (0x0134 :: INT16U), spiFaultFlag := 1\<rparr>)
       = Inr ((2, 0x34), (sys_init 0 0 0)\<lparr>spiFault := 0x34, spiFaultFlag := 0\<rparr>)
   \<and> unat (0x0134 :: INT16U) mod 2 ^ 8 = unat (0x34 :: INT16U)"
proof -
  have h: "0 < spiFaultFlag ((sys_init 0 0 0)\<lparr>spiFault := ucast (0x0134 :: INT16U), spiFaultFlag := 1\<rparr>)"
    by simp
  from fault_word_truncated_to_8_bits[OF h] h show ?thesis by simp
qed

section \<open>The value PWMRate returns\<close>

lemma setSpiData_pwm_value: "setSpiData p s = Inr s' \<Longrightarrow> pwm_value s' = pwm_value s"
  by (auto simp: setSpiData_def split: sum.splits)

lemma setPwmRate_pwm_value: "setPwmRate p s = Inr s' \<Longrightarrow> pwm_value s' = pwm_value s"
  by (auto simp: setPwmRate_def split: sum.splits)

lemma accept_pwm_value: "accept s = Inr s' \<Longrightarrow> pwm_value s' = pwm_value s"
  by (auto simp: accept_def lcd_do_def dest!: setSpiData_pwm_value setPwmRate_pwm_value
      split: sum.splits if_splits)

lemma key_adjust_ones_pwm_value: "key_adjust_ones k s = Inr s' \<Longrightarrow> pwm_value s' = pwm_value s"
  by (auto simp: key_adjust_ones_def lcd_do_def Let_def dest: accept_pwm_value split: if_splits)

lemma UITask_step_pwm_value: "UITask_step sz k s = Inr s' \<Longrightarrow> pwm_value s' = pwm_value s"
  by (auto simp: UITask_step_def key_emergency_stop_Inl key_running_def key_adjust_out_def
      key_adjust_tens_def spi_message_def lcd_do_def Let_def
      dest: key_adjust_ones_pwm_value split: if_splits SETTING_STATE.splits)

lemma perform_pwm_value: "perform x s = Inr s' \<Longrightarrow> pwm_value s' = pwm_value s"
proof (cases x)
  case (Op_UITask sz k)
  then show "perform x s = Inr s' \<Longrightarrow> pwm_value s' = pwm_value s"
    using UITask_step_pwm_value by simp
next
  case Op_UISPISrvTask
  then show "perform x s = Inr s' \<Longrightarrow> pwm_value s' = pwm_value s"
    by (auto simp: UISPISrvTask_def SPIPend_def split: if_splits)
next
  case (Op_setSpiData p)
  then show "perform x s = Inr s' \<Longrightarrow> pwm_value s' = pwm_value s"
    using setSpiData_pwm_value by simp
next
  case (Op_setPwmRate p)
  then show "perform x s = Inr s' \<Longrightarrow> pwm_value s' = pwm_value s"
    using setPwmRate_pwm_value by simp
next
  case Op_getPwmRate
  then show "perform x s = Inr s' \<Longrightarrow> pwm_value s' = pwm_value s" by simp
next
  case (Op_PWMRate e)
  then show "perform x s = Inr s' \<Longrightarrow> pwm_value s' = pwm_value s"
    by (auto simp: PWMRate_def split: if_splits)
qed

lemma perform_all_pwm_value: "perform_all xs s = Inr s' \<Longrightarrow> pwm_value s' = pwm_value s"
proof (induction xs arbitrary: s)
  case Nil
  then show ?case by simp
next
  case (Cons x xs)
  from Cons.prems obtain s1 where s1: "perform x s = Inr s1" "perform_all xs s1 = Inr s'"
    by (auto split: sum.splits)
  show ?case using Cons.IH[OF s1(2)] perform_pwm_value[OF s1(1)] by simp
qed

text \<open>
  Claim C10: \<open>pwm_value\<close> starts at 0 and no operation of the three modules writes it, so
  after every sequence of operations (rounds of the UI task and of the fault listener,
  \<open>setSpiData\<close>, \<open>setPwmRate\<close>, \<open>getPwmRate\<close>, \<open>PWMRate\<close>) that has returned, a call
  of \<open>PWMRate\<close> whose post succeeds returns 0, and it posts the semaphore \<open>PWMChgFlag\<close>
  once.
\<close>

theorem PWMRate_always_returns_zero:
  assumes "perform_all xs (sys_init w p m) = Inr s"
  shows "pwm_value s = 0
    \<and> PWMRate OS_ERR_NONE s = Inr (0, s\<lparr>PWMChgFlag := PWMChgFlag s + 1\<rparr>)"
  using perform_all_pwm_value[OF assms] by (simp add: PWMRate_def sys_init_def)

theorem PWMRate_always_returns_zero_witness:
  "\<exists>s. perform_all [Op_setPwmRate (AddressOf 55), Op_PWMRate OS_ERR_NONE, Op_getPwmRate]
          (sys_init 0 0 0) = Inr s
     \<and> pwmrate s = 55 \<and> PWMChgFlag s = 1
     \<and> PWMRate OS_ERR_NONE s = Inr (0, s\<lparr>PWMChgFlag := 2\<rparr>)"
proof -
  have "\<exists>s. perform_all [Op_setPwmRate (AddressOf 55), Op_PWMRate OS_ERR_NONE, Op_getPwmRate]
          (sys_init 0 0 0) = Inr s
     \<and> pwmrate s = 55 \<and> PWMChgFlag s = 1"
    by (simp add: setPwmRate_def deref_def PWMRate_def sys_init_def)
  then obtain s where s:
    "perform_all [Op_setPwmRate (AddressOf 55), Op_PWMRate OS_ERR_NONE, Op_getPwmRate]
       (sys_init 0 0 0) = Inr s"
    "pwmrate s = 55" "PWMChgFlag s = 1" by blast
  from PWMRate_always_returns_zero[OF s(1)] s show ?thesis by auto
qed

end
